theory Spec2Isabelle
  imports Main "HOL-Library.Word"
begin

section \<open>Memory model shared by both containers\<close>

text \<open>
  Both headers (\<^verbatim>\<open>result.h\<close>, \<^verbatim>\<open>array.h\<close>) work on heap objects through pointers:
  \<^verbatim>\<open>malloc\<close>/\<^verbatim>\<open>calloc\<close> create them, \<^verbatim>\<open>free\<close> destroys them, and the accessors
  hand out pointers into them. The heap is an explicit store from addresses to objects.
  What C leaves undefined (a store or load through a null or dangling pointer, an
  out-of-range element, freeing what is not allocated) is a \<open>fault\<close> value, so that every
  such step is a branch of the model.
\<close>

type_synonym addr = nat

datatype fault = NullDeref | DanglingDeref | OutOfBounds | InvalidFree


section \<open>Result<T, E> (result.h)\<close>

subsection \<open>Data\<close>

text \<open>
  \<^verbatim>\<open>typedef struct { bool _is_ok; union { T _ok; E _err; }; } Self;\<close>
  The anonymous union remembers which member was stored last; memory fresh from
  \<^verbatim>\<open>malloc\<close> holds neither.
\<close>

datatype ('t, 'e) payload = Indeterminate | Ok_member 't | Err_member 'e

record ('t, 'e) Result_T_E =
  fld_is_ok :: bool
  fld_union :: "('t, 'e) payload"

text \<open>\<^verbatim>\<open>Self *\<close>: null or the address of a record.\<close>

datatype rptr = RNull | RPtr addr

text \<open>
  \<^verbatim>\<open>T *\<close> and \<^verbatim>\<open>E *\<close> as the functions of \<^verbatim>\<open>result.h\<close> see them: null, the address
  of the union member of the record at an address (\<^verbatim>\<open>&result->_ok\<close>,
  \<^verbatim>\<open>&result->_err\<close>), or a pointer to an object of the caller's (a fallback).
\<close>

datatype 'x fieldptr = FNull | Field addr | Elsewhere 'x

text \<open>
  The store of Result records. The record is extensible: a caller's own state (what a
  supplier passed to \<^verbatim>\<open>value_or_else\<close> reads and writes) lives in the extension.
\<close>

record ('t, 'e) rheap =
  results :: "addr \<rightharpoonup> ('t, 'e) Result_T_E"

subsection \<open>Allocation, loads and stores\<close>

text \<open>
  \<^verbatim>\<open>malloc(sizeof(Self))\<close>. Whether it succeeds, where the block lies and what the
  fresh block holds is the allocator's choice: the answer \<open>m\<close> is \<open>None\<close> for a failed
  allocation (a null pointer) and \<open>Some (p, junk)\<close> for a block at \<open>p\<close> with
  contents \<open>junk\<close>.
\<close>

definition malloc_Result ::
  "(addr \<times> ('t, 'e) Result_T_E) option \<Rightarrow> ('t, 'e, 'z) rheap_scheme
     \<Rightarrow> rptr \<times> ('t, 'e, 'z) rheap_scheme" where
  "malloc_Result m h =
     (case m of
        None \<Rightarrow> (RNull, h)
      | Some (p, junk) \<Rightarrow> (RPtr p, h\<lparr>results := (results h)(p \<mapsto> junk)\<rparr>))"

text \<open>\<^verbatim>\<open>free(result)\<close>: nothing for a null pointer, undefined for a block that is not live.\<close>

definition free_Result ::
  "rptr \<Rightarrow> ('t, 'e, 'z) rheap_scheme \<Rightarrow> fault + ('t, 'e, 'z) rheap_scheme" where
  "free_Result r h =
     (case r of
        RNull \<Rightarrow> Inr h
      | RPtr p \<Rightarrow>
          (case results h p of
             None \<Rightarrow> Inl InvalidFree
           | Some s \<Rightarrow> Inr (h\<lparr>results := (results h)(p := None)\<rparr>)))"

text \<open>Reading the record behind \<^verbatim>\<open>result->\<close>.\<close>

definition load_Result ::
  "rptr \<Rightarrow> ('t, 'e, 'z) rheap_scheme \<Rightarrow> fault + ('t, 'e) Result_T_E" where
  "load_Result r h =
     (case r of
        RNull \<Rightarrow> Inl NullDeref
      | RPtr p \<Rightarrow>
          (case results h p of
             None \<Rightarrow> Inl DanglingDeref
           | Some s \<Rightarrow> Inr s))"

text \<open>An assignment \<^verbatim>\<open>result->field = ...\<close>, the field update given as \<open>upd\<close>.\<close>

definition store_Result ::
  "rptr \<Rightarrow> (('t, 'e) Result_T_E \<Rightarrow> ('t, 'e) Result_T_E) \<Rightarrow> ('t, 'e, 'z) rheap_scheme
     \<Rightarrow> fault + ('t, 'e, 'z) rheap_scheme" where
  "store_Result r upd h =
     (case r of
        RNull \<Rightarrow> Inl NullDeref
      | RPtr p \<Rightarrow>
          (case results h p of
             None \<Rightarrow> Inl DanglingDeref
           | Some s \<Rightarrow> Inr (h\<lparr>results := (results h)(p \<mapsto> upd s)\<rparr>)))"

text \<open>
  What a caller reads through a returned \<^verbatim>\<open>T *\<close> or \<^verbatim>\<open>E *\<close> that points into a
  record: the member stored last, if it is the one the pointer's type names.
\<close>

definition deref_ok :: "'x fieldptr \<Rightarrow> ('t, 'e, 'z) rheap_scheme \<Rightarrow> 't option" where
  "deref_ok t h =
     (case t of
        Field p \<Rightarrow>
          (case results h p of
             None \<Rightarrow> None
           | Some s \<Rightarrow> (case fld_union s of Ok_member v \<Rightarrow> Some v | _ \<Rightarrow> None))
      | _ \<Rightarrow> None)"

definition deref_err :: "'x fieldptr \<Rightarrow> ('t, 'e, 'z) rheap_scheme \<Rightarrow> 'e option" where
  "deref_err t h =
     (case t of
        Field p \<Rightarrow>
          (case results h p of
             None \<Rightarrow> None
           | Some s \<Rightarrow> (case fld_union s of Err_member e \<Rightarrow> Some e | _ \<Rightarrow> None))
      | _ \<Rightarrow> None)"

subsection \<open>Operations\<close>

text \<open>
  \<^verbatim>\<open>Self * fn(success)(T value)\<close>: allocate, \<^verbatim>\<open>ensure(result, NULL)\<close>, set the
  discriminant, store the value.
\<close>

definition Result_success ::
  "(addr \<times> ('t, 'e) Result_T_E) option \<Rightarrow> 't \<Rightarrow> ('t, 'e, 'z) rheap_scheme
     \<Rightarrow> fault + (rptr \<times> ('t, 'e, 'z) rheap_scheme)" where
  "Result_success m val h =
     (case malloc_Result m h of
        (result, h1) \<Rightarrow>
          if result = RNull then Inr (RNull, h1)
          else
            (case store_Result result (\<lambda>s. s\<lparr>fld_is_ok := True\<rparr>) h1 of
               Inl f \<Rightarrow> Inl f
             | Inr h2 \<Rightarrow>
                 (case store_Result result (\<lambda>s. s\<lparr>fld_union := Ok_member val\<rparr>) h2 of
                    Inl f \<Rightarrow> Inl f
                  | Inr h3 \<Rightarrow> Inr (result, h3))))"

text \<open>\<^verbatim>\<open>Self * fn(fail)(E error)\<close>.\<close>

definition Result_fail ::
  "(addr \<times> ('t, 'e) Result_T_E) option \<Rightarrow> 'e \<Rightarrow> ('t, 'e, 'z) rheap_scheme
     \<Rightarrow> fault + (rptr \<times> ('t, 'e, 'z) rheap_scheme)" where
  "Result_fail m err h =
     (case malloc_Result m h of
        (result, h1) \<Rightarrow>
          if result = RNull then Inr (RNull, h1)
          else
            (case store_Result result (\<lambda>s. s\<lparr>fld_is_ok := False\<rparr>) h1 of
               Inl f \<Rightarrow> Inl f
             | Inr h2 \<Rightarrow>
                 (case store_Result result (\<lambda>s. s\<lparr>fld_union := Err_member err\<rparr>) h2 of
                    Inl f \<Rightarrow> Inl f
                  | Inr h3 \<Rightarrow> Inr (result, h3))))"

text \<open>
  \<^verbatim>\<open>bool fn(delete)(Self * result) { ensure(result, false); free(result); }\<close>
  The body ends after \<^verbatim>\<open>free\<close> with no \<^verbatim>\<open>return\<close>: on that path the function
  hands back no value, which is \<open>None\<close> here.
\<close>

definition Result_delete ::
  "rptr \<Rightarrow> ('t, 'e, 'z) rheap_scheme \<Rightarrow> fault + (bool option \<times> ('t, 'e, 'z) rheap_scheme)" where
  "Result_delete result h =
     (if result = RNull then Inr (Some False, h)
      else
        (case free_Result result h of
           Inl f \<Rightarrow> Inl f
         | Inr h1 \<Rightarrow> Inr (None, h1)))"

text \<open>\<^verbatim>\<open>bool fn(is_ok)(Self * result)\<close> and \<^verbatim>\<open>bool fn(is_err)(Self * result)\<close>.\<close>

definition Result_is_ok :: "rptr \<Rightarrow> ('t, 'e, 'z) rheap_scheme \<Rightarrow> fault + bool" where
  "Result_is_ok result h =
     (if result = RNull then Inr False
      else (case load_Result result h of Inl f \<Rightarrow> Inl f | Inr s \<Rightarrow> Inr (fld_is_ok s)))"

definition Result_is_err :: "rptr \<Rightarrow> ('t, 'e, 'z) rheap_scheme \<Rightarrow> fault + bool" where
  "Result_is_err result h =
     (if result = RNull then Inr False
      else (case load_Result result h of Inl f \<Rightarrow> Inl f | Inr s \<Rightarrow> Inr (\<not> fld_is_ok s)))"

text \<open>The address \<^verbatim>\<open>&result->_ok\<close> (the same for \<^verbatim>\<open>&result->_err\<close>) of a non-null pointer.\<close>

definition member_of :: "rptr \<Rightarrow> 'x fieldptr" where
  "member_of result = (case result of RNull \<Rightarrow> FNull | RPtr p \<Rightarrow> Field p)"

text \<open>\<^verbatim>\<open>T * fn(value)(Self * result)\<close>.\<close>

definition Result_value :: "rptr \<Rightarrow> ('t, 'e, 'z) rheap_scheme \<Rightarrow> fault + 'x fieldptr" where
  "Result_value result h =
     (if result = RNull then Inr FNull
      else
        (case load_Result result h of
           Inl f \<Rightarrow> Inl f
         | Inr s \<Rightarrow> if \<not> fld_is_ok s then Inr FNull else Inr (member_of result)))"

text \<open>\<^verbatim>\<open>E * fn(error)(Self * result)\<close>.\<close>

definition Result_error :: "rptr \<Rightarrow> ('t, 'e, 'z) rheap_scheme \<Rightarrow> fault + 'y fieldptr" where
  "Result_error result h =
     (if result = RNull then Inr FNull
      else
        (case load_Result result h of
           Inl f \<Rightarrow> Inl f
         | Inr s \<Rightarrow> if \<not> (\<not> fld_is_ok s) then Inr FNull else Inr (member_of result)))"

text \<open>
  \<^verbatim>\<open>T * fn(value_or)(Self * result, T * fallback)\<close>:
  \<^verbatim>\<open>ensure(result, NULL); return (result->_is_ok) ? &result->_ok : fallback;\<close>
\<close>

definition Result_value_or ::
  "rptr \<Rightarrow> 'x fieldptr \<Rightarrow> ('t, 'e, 'z) rheap_scheme \<Rightarrow> fault + 'x fieldptr" where
  "Result_value_or result fallback h =
     (if result = RNull then Inr FNull
      else
        (case load_Result result h of
           Inl f \<Rightarrow> Inl f
         | Inr s \<Rightarrow> Inr (if fld_is_ok s then member_of result else fallback)))"

text \<open>\<^verbatim>\<open>E * fn(error_or)(Self * result, E * fallback)\<close>.\<close>

definition Result_error_or ::
  "rptr \<Rightarrow> 'y fieldptr \<Rightarrow> ('t, 'e, 'z) rheap_scheme \<Rightarrow> fault + 'y fieldptr" where
  "Result_error_or result fallback h =
     (if result = RNull then Inr FNull
      else
        (case load_Result result h of
           Inl f \<Rightarrow> Inl f
         | Inr s \<Rightarrow> Inr (if \<not> fld_is_ok s then member_of result else fallback)))"

text \<open>
  \<^verbatim>\<open>T * fn(value_or_else)(Self * result, T * (*or_else)())\<close>. The supplier is a
  function of the caller's: it may read and change the whole state and returns a pointer.
  Calling it is applying it to the current state.
\<close>

definition Result_value_or_else ::
  "rptr \<Rightarrow> (('t, 'e, 'z) rheap_scheme \<Rightarrow> fault + ('x fieldptr \<times> ('t, 'e, 'z) rheap_scheme))
     \<Rightarrow> ('t, 'e, 'z) rheap_scheme \<Rightarrow> fault + ('x fieldptr \<times> ('t, 'e, 'z) rheap_scheme)" where
  "Result_value_or_else result or_else h =
     (if result = RNull then Inr (FNull, h)
      else
        (case load_Result result h of
           Inl f \<Rightarrow> Inl f
         | Inr s \<Rightarrow> if fld_is_ok s then Inr (member_of result, h) else or_else h))"

text \<open>\<^verbatim>\<open>E * fn(error_or_else)(Self * result, E * (*or_else)())\<close>.\<close>

definition Result_error_or_else ::
  "rptr \<Rightarrow> (('t, 'e, 'z) rheap_scheme \<Rightarrow> fault + ('y fieldptr \<times> ('t, 'e, 'z) rheap_scheme))
     \<Rightarrow> ('t, 'e, 'z) rheap_scheme \<Rightarrow> fault + ('y fieldptr \<times> ('t, 'e, 'z) rheap_scheme)" where
  "Result_error_or_else result or_else h =
     (if result = RNull then Inr (FNull, h)
      else
        (case load_Result result h of
           Inl f \<Rightarrow> Inl f
         | Inr s \<Rightarrow> if \<not> fld_is_ok s then Inr (member_of result, h) else or_else h))"


section \<open>Array<T> (array.h)\<close>

subsection \<open>Data\<close>

type_synonym size_t = "64 word"

text \<open>\<^verbatim>\<open>Self *\<close> of \<^verbatim>\<open>array.h\<close>: null or the address of a container record.\<close>

datatype aptr = ANull | APtr addr

text \<open>
  \<^verbatim>\<open>T *\<close>: null, or a position in a block of elements (the block's address and an
  offset counted in elements). \<^verbatim>\<open>calloc\<close> returns offset 0; \<^verbatim>\<open>&data[index]\<close> adds
  \<open>index\<close>.
\<close>

datatype tptr = TNull | TPtr addr nat

text \<open>\<^verbatim>\<open>typedef struct { T* data; size_t _size; } Self;\<close>\<close>

record Array_T =
  fld_data :: tptr
  fld_size :: size_t

text \<open>The store: container records and, apart from them, the blocks of elements.\<close>

record 't aheap =
  arrays :: "addr \<rightharpoonup> Array_T"
  blocks :: "addr \<rightharpoonup> 't list"

subsection \<open>Allocation, loads and stores\<close>

text \<open>\<^verbatim>\<open>malloc(sizeof(Self))\<close>, answered by the allocator as for Result.\<close>

definition malloc_Array :: "(addr \<times> Array_T) option \<Rightarrow> 't aheap \<Rightarrow> aptr \<times> 't aheap" where
  "malloc_Array m h =
     (case m of
        None \<Rightarrow> (ANull, h)
      | Some (p, junk) \<Rightarrow> (APtr p, h\<lparr>arrays := (arrays h)(p \<mapsto> junk)\<rparr>))"

text \<open>
  \<^verbatim>\<open>calloc(size, sizeof(T))\<close>. The element type \<^verbatim>\<open>T\<close> is the includer's macro, so
  \<^verbatim>\<open>sizeof(T)\<close> is a parameter, \<open>sizeof_T\<close>. A request whose byte count
  \<open>size * sizeof(T)\<close> does not fit \<^verbatim>\<open>size_t\<close> fails, whatever the allocator would
  answer. Otherwise the result is a null pointer when the allocator answers \<open>None\<close>, and a
  block of \<open>size\<close> elements with all bits zero, the element type's zero, when it answers
  with an address.
\<close>

definition calloc_T ::
  "addr option \<Rightarrow> size_t \<Rightarrow> size_t \<Rightarrow> 't::zero aheap \<Rightarrow> tptr \<times> 't aheap" where
  "calloc_T c n sizeof_T h =
     (if 2 ^ 64 \<le> unat n * unat sizeof_T then (TNull, h)
      else
        (case c of
           None \<Rightarrow> (TNull, h)
         | Some b \<Rightarrow> (TPtr b 0, h\<lparr>blocks := (blocks h)(b \<mapsto> replicate (unat n) 0)\<rparr>)))"

text \<open>\<^verbatim>\<open>free\<close> of a \<^verbatim>\<open>T *\<close>: defined for null and for the start of a live block.\<close>

definition free_T :: "tptr \<Rightarrow> 't aheap \<Rightarrow> fault + 't aheap" where
  "free_T d h =
     (case d of
        TNull \<Rightarrow> Inr h
      | TPtr b off \<Rightarrow>
          (case blocks h b of
             None \<Rightarrow> Inl InvalidFree
           | Some xs \<Rightarrow>
               if off = 0 then Inr (h\<lparr>blocks := (blocks h)(b := None)\<rparr>)
               else Inl InvalidFree))"

text \<open>\<^verbatim>\<open>free\<close> of a \<^verbatim>\<open>Self *\<close>.\<close>

definition free_Array :: "aptr \<Rightarrow> 't aheap \<Rightarrow> fault + 't aheap" where
  "free_Array a h =
     (case a of
        ANull \<Rightarrow> Inr h
      | APtr p \<Rightarrow>
          (case arrays h p of
             None \<Rightarrow> Inl InvalidFree
           | Some s \<Rightarrow> Inr (h\<lparr>arrays := (arrays h)(p := None)\<rparr>)))"

text \<open>Reading the record behind \<^verbatim>\<open>array->\<close>, and an assignment \<^verbatim>\<open>array->field = ...\<close>.\<close>

definition load_Array :: "aptr \<Rightarrow> 't aheap \<Rightarrow> fault + Array_T" where
  "load_Array a h =
     (case a of
        ANull \<Rightarrow> Inl NullDeref
      | APtr p \<Rightarrow>
          (case arrays h p of
             None \<Rightarrow> Inl DanglingDeref
           | Some s \<Rightarrow> Inr s))"

definition store_Array :: "aptr \<Rightarrow> (Array_T \<Rightarrow> Array_T) \<Rightarrow> 't aheap \<Rightarrow> fault + 't aheap" where
  "store_Array a upd h =
     (case a of
        ANull \<Rightarrow> Inl NullDeref
      | APtr p \<Rightarrow>
          (case arrays h p of
             None \<Rightarrow> Inl DanglingDeref
           | Some s \<Rightarrow> Inr (h\<lparr>arrays := (arrays h)(p \<mapsto> upd s)\<rparr>)))"

text \<open>
  The address \<^verbatim>\<open>&data[index]\<close>: pointer arithmetic is defined inside a live block and
  one past its end.
\<close>

definition element_ptr :: "tptr \<Rightarrow> size_t \<Rightarrow> 't aheap \<Rightarrow> fault + tptr" where
  "element_ptr d index h =
     (case d of
        TNull \<Rightarrow> Inl NullDeref
      | TPtr b off \<Rightarrow>
          (case blocks h b of
             None \<Rightarrow> Inl DanglingDeref
           | Some xs \<Rightarrow>
               if off + unat index \<le> length xs then Inr (TPtr b (off + unat index))
               else Inl OutOfBounds))"

text \<open>The assignment \<^verbatim>\<open>data[index] = value\<close>: the element has to exist.\<close>

definition store_element :: "tptr \<Rightarrow> size_t \<Rightarrow> 't \<Rightarrow> 't aheap \<Rightarrow> fault + 't aheap" where
  "store_element d index val h =
     (case d of
        TNull \<Rightarrow> Inl NullDeref
      | TPtr b off \<Rightarrow>
          (case blocks h b of
             None \<Rightarrow> Inl DanglingDeref
           | Some xs \<Rightarrow>
               if off + unat index < length xs
               then Inr (h\<lparr>blocks := (blocks h)(b \<mapsto> xs[off + unat index := val])\<rparr>)
               else Inl OutOfBounds))"

text \<open>What a caller reads through a \<^verbatim>\<open>T *\<close>: the element it points to, if there is one.\<close>

definition deref_T :: "tptr \<Rightarrow> 't aheap \<Rightarrow> 't option" where
  "deref_T t h =
     (case t of
        TNull \<Rightarrow> None
      | TPtr b k \<Rightarrow>
          (case blocks h b of
             None \<Rightarrow> None
           | Some xs \<Rightarrow> if k < length xs then Some (xs ! k) else None))"

subsection \<open>Operations\<close>

text \<open>
  \<^verbatim>\<open>Self *fn(new)(size_t size)\<close>:
  \<^verbatim>\<open>Self * array = malloc(sizeof(Self)); array->data = calloc(size, sizeof(T));
  array->_size = size; return array;\<close>
  Neither allocation is tested before the two stores through \<^verbatim>\<open>array\<close>.
  \<open>sizeof_T\<close> is \<^verbatim>\<open>sizeof(T)\<close> of the instantiation.
\<close>

definition Array_new ::
  "size_t \<Rightarrow> (addr \<times> Array_T) option \<Rightarrow> addr option \<Rightarrow> size_t \<Rightarrow> 't::zero aheap
     \<Rightarrow> fault + (aptr \<times> 't aheap)" where
  "Array_new sizeof_T m c n h =
     (case malloc_Array m h of
        (array, h1) \<Rightarrow>
          (case calloc_T c n sizeof_T h1 of
             (d, h2) \<Rightarrow>
               (case store_Array array (\<lambda>s. s\<lparr>fld_data := d\<rparr>) h2 of
                  Inl f \<Rightarrow> Inl f
                | Inr h3 \<Rightarrow>
                    (case store_Array array (\<lambda>s. s\<lparr>fld_size := n\<rparr>) h3 of
                       Inl f \<Rightarrow> Inl f
                     | Inr h4 \<Rightarrow> Inr (array, h4)))))"

text \<open>
  \<^verbatim>\<open>bool fn(delete)(Self* array)\<close>:
  \<^verbatim>\<open>ensure(array, false); free(array->data); free(array); return true;\<close>
\<close>

definition Array_delete :: "aptr \<Rightarrow> 't aheap \<Rightarrow> fault + (bool \<times> 't aheap)" where
  "Array_delete array h =
     (if array = ANull then Inr (False, h)
      else
        (case load_Array array h of
           Inl f \<Rightarrow> Inl f
         | Inr s \<Rightarrow>
             (case free_T (fld_data s) h of
                Inl f \<Rightarrow> Inl f
              | Inr h1 \<Rightarrow>
                  (case free_Array array h1 of
                     Inl f \<Rightarrow> Inl f
                   | Inr h2 \<Rightarrow> Inr (True, h2)))))"

text \<open>
  \<^verbatim>\<open>T * fn(get)(Self* array, size_t index)\<close>:
  \<^verbatim>\<open>ensure(array, NULL); ensure(index < array->_size, NULL); return &array->data[index];\<close>
\<close>

definition Array_get :: "aptr \<Rightarrow> size_t \<Rightarrow> 't aheap \<Rightarrow> fault + tptr" where
  "Array_get array index h =
     (if array = ANull then Inr TNull
      else
        (case load_Array array h of
           Inl f \<Rightarrow> Inl f
         | Inr s \<Rightarrow>
             if \<not> index < fld_size s then Inr TNull
             else element_ptr (fld_data s) index h))"

text \<open>
  \<^verbatim>\<open>bool fn(set)(Self* array, size_t index, T value)\<close>:
  \<^verbatim>\<open>ensure(array, false); ensure(index < array->_size, false);
  array->data[index] = value; return true;\<close>
\<close>

definition Array_set :: "aptr \<Rightarrow> size_t \<Rightarrow> 't \<Rightarrow> 't aheap \<Rightarrow> fault + (bool \<times> 't aheap)" where
  "Array_set array index val h =
     (if array = ANull then Inr (False, h)
      else
        (case load_Array array h of
           Inl f \<Rightarrow> Inl f
         | Inr s \<Rightarrow>
             if \<not> index < fld_size s then Inr (False, h)
             else
               (case store_element (fld_data s) index val h of
                  Inl f \<Rightarrow> Inl f
                | Inr h1 \<Rightarrow> Inr (True, h1))))"

text \<open>
  \<^verbatim>\<open>T * fn(replace)(Self * array, size_t index, T value)\<close>:
  \<^verbatim>\<open>ensure(array, NULL); ensure(index < array->_size, NULL);
  T * old_value = fn(get)(array, index); fn(set)(array, index, value);
  return old_value;\<close>
  The pointer taken before the store is returned after it.
\<close>

definition Array_replace ::
  "aptr \<Rightarrow> size_t \<Rightarrow> 't \<Rightarrow> 't aheap \<Rightarrow> fault + (tptr \<times> 't aheap)" where
  "Array_replace array index val h =
     (if array = ANull then Inr (TNull, h)
      else
        (case load_Array array h of
           Inl f \<Rightarrow> Inl f
         | Inr s \<Rightarrow>
             if \<not> index < fld_size s then Inr (TNull, h)
             else
               (case Array_get array index h of
                  Inl f \<Rightarrow> Inl f
                | Inr old_value \<Rightarrow>
                    (case Array_set array index val h of
                       Inl f \<Rightarrow> Inl f
                     | Inr (ok, h1) \<Rightarrow> Inr (old_value, h1)))))"

text \<open>\<^verbatim>\<open>size_t fn(size)(Self * array)\<close>: \<^verbatim>\<open>ensure(array, 0); return array->_size;\<close>\<close>

definition Array_size :: "aptr \<Rightarrow> 't aheap \<Rightarrow> fault + size_t" where
  "Array_size array h =
     (if array = ANull then Inr 0
      else (case load_Array array h of Inl f \<Rightarrow> Inl f | Inr s \<Rightarrow> Inr (fld_size s)))"

subsection \<open>Well-formed arrays\<close>

text \<open>
  The data model's Array: a live container record whose \<open>data\<close> is the start of a live
  block of exactly \<open>size\<close> elements. \<open>Array_new\<close> establishes it when both allocations
  succeed and \<open>Array_set\<close> keeps it.
\<close>

definition valid_array :: "'t aheap \<Rightarrow> aptr \<Rightarrow> bool" where
  "valid_array h a =
     (case a of
        ANull \<Rightarrow> False
      | APtr p \<Rightarrow>
          (case arrays h p of
             None \<Rightarrow> False
           | Some s \<Rightarrow>
               (case fld_data s of
                  TNull \<Rightarrow> False
                | TPtr b off \<Rightarrow>
                    (case blocks h b of
                       None \<Rightarrow> False
                     | Some xs \<Rightarrow> off = 0 \<and> length xs = unat (fld_size s)))))"


section \<open>Callers\<close>

text \<open>
  A caller that counts the calls of its supplier, as a test of \<^verbatim>\<open>value_or_else\<close>
  would: its state is the store of records and a counter, and the supplier increments
  the counter before it returns its pointer.
\<close>

record ('t, 'e) counted_heap = "('t, 'e) rheap" +
  calls :: nat

definition counting_supplier ::
  "'x fieldptr \<Rightarrow> ('t, 'e) counted_heap \<Rightarrow> fault + ('x fieldptr \<times> ('t, 'e) counted_heap)" where
  "counting_supplier answer h = Inr (answer, h\<lparr>calls := calls h + 1\<rparr>)"

text \<open>
  The state of \<^verbatim>\<open>result/main.c\<close> after its first two constructor calls, the records
  placed at addresses 0 and 1:
  \<^verbatim>\<open>valid = Success(str, str)("Operation succeeded")\<close> and
  \<^verbatim>\<open>invalid = Fail(str, str)("Operation failed")\<close>.
\<close>

definition main_results :: "(string, string) counted_heap" where
  "main_results =
     \<lparr>results =
        [0 \<mapsto> \<lparr>fld_is_ok = True, fld_union = Ok_member ''Operation succeeded''\<rparr>,
         1 \<mapsto> \<lparr>fld_is_ok = False, fld_union = Err_member ''Operation failed''\<rparr>],
      calls = 0\<rparr>"

text \<open>
  An \<^verbatim>\<open>Array<int>\<close> (\<^verbatim>\<open>sizeof(int)\<close> is 4) of three elements, as \<^verbatim>\<open>new(3)\<close>
  leaves it: record and block at 0.
\<close>

definition three_ints :: "int aheap" where
  "three_ints =
     \<lparr>arrays = [0 \<mapsto> \<lparr>fld_data = TPtr 0 0, fld_size = 3\<rparr>],
      blocks = [0 \<mapsto> [0, 0, 0]]\<rparr>"

text \<open>The store with nothing allocated.\<close>

definition no_arrays :: "int aheap" where
  "no_arrays = \<lparr>arrays = Map.empty, blocks = Map.empty\<rparr>"


section \<open>Properties of Result<T, E>\<close>

subsection \<open>Allocation and access of a live record\<close>

lemma malloc_Result_Some:
  "malloc_Result (Some (p, junk)) h = (RPtr p, h\<lparr>results := (results h)(p \<mapsto> junk)\<rparr>)"
  by (simp add: malloc_Result_def)

lemma store_Result_live:
  "results h p = Some s \<Longrightarrow>
   store_Result (RPtr p) upd h = Inr (h\<lparr>results := (results h)(p \<mapsto> upd s)\<rparr>)"
  by (simp add: store_Result_def)

lemma load_Result_live: "results h p = Some s \<Longrightarrow> load_Result (RPtr p) h = Inr s"
  by (simp add: load_Result_def)

lemma Result_success_Some:
  "Result_success (Some (p, junk)) v h =
     Inr (RPtr p,
          h\<lparr>results := (results h)(p \<mapsto> \<lparr>fld_is_ok = True, fld_union = Ok_member v\<rparr>)\<rparr>)"
  by (cases junk) (simp add: Result_success_def malloc_Result_Some store_Result_live)

lemma Result_fail_Some:
  "Result_fail (Some (p, junk)) e h =
     Inr (RPtr p,
          h\<lparr>results := (results h)(p \<mapsto> \<lparr>fld_is_ok = False, fld_union = Err_member e\<rparr>)\<rparr>)"
  by (cases junk) (simp add: Result_fail_def malloc_Result_Some store_Result_live)

text \<open>The two records of \<^verbatim>\<open>result/main.c\<close>.\<close>

lemma main_results_valid:
  "results main_results 0 =
     Some \<lparr>fld_is_ok = True, fld_union = Ok_member ''Operation succeeded''\<rparr>"
  by (simp add: main_results_def)

lemma main_results_invalid:
  "results main_results 1 =
     Some \<lparr>fld_is_ok = False, fld_union = Err_member ''Operation failed''\<rparr>"
  by (simp add: main_results_def)

subsection \<open>Constructors\<close>

text \<open>
  Claim C5. For every value \<open>v\<close>, \<open>success(v)\<close> yields a Result with \<open>is_ok = true\<close>
  whose \<open>value\<close> is present and reads \<open>v\<close>; for every error \<open>e\<close>, \<open>fail(e)\<close> yields a
  Result with \<open>is_ok = false\<close> whose \<open>error\<close> is present and reads \<open>e\<close>. A Result is
  yielded when \<^verbatim>\<open>malloc\<close> answers with a block: at whatever address \<open>p\<close>, with
  whatever contents \<open>junk\<close>, in whatever store \<open>h\<close>.
\<close>

theorem constructors_populate:
  "(\<exists>h'. Result_success (Some (p, junk)) v h = Inr (RPtr p, h')
        \<and> Result_is_ok (RPtr p) h' = Inr True
        \<and> Result_value (RPtr p) h' = Inr (Field p :: 'x fieldptr)
        \<and> deref_ok (Field p :: 'x fieldptr) h' = Some v)
   \<and> (\<exists>h'. Result_fail (Some (p, junk)) e h = Inr (RPtr p, h')
        \<and> Result_is_ok (RPtr p) h' = Inr False
        \<and> Result_error (RPtr p) h' = Inr (Field p :: 'y fieldptr)
        \<and> deref_err (Field p :: 'y fieldptr) h' = Some e)"
  by (simp add: Result_success_Some Result_fail_Some Result_is_ok_def Result_value_def
      Result_error_def load_Result_live member_of_def deref_ok_def deref_err_def)

subsection \<open>Inspection\<close>

text \<open>
  Claim C6. For every non-null Result \<open>r\<close> (a pointer to a live record), \<open>value(r)\<close> and
  \<open>error(r)\<close> both return, \<open>value(r)\<close> is present (not null) exactly when \<open>r\<close> is in
  success state, \<open>error(r)\<close> is present exactly when \<open>r\<close> is in error state, and exactly
  one of the two is present.
\<close>

theorem value_xor_error:
  assumes "results h p = Some s"
  shows "\<exists>(t :: 'x fieldptr) (e :: 'y fieldptr).
           Result_value (RPtr p) h = Inr t \<and> Result_error (RPtr p) h = Inr e
         \<and> Result_is_ok (RPtr p) h = Inr (fld_is_ok s)
         \<and> Result_is_err (RPtr p) h = Inr (\<not> fld_is_ok s)
         \<and> ((t \<noteq> FNull) = fld_is_ok s)
         \<and> ((e \<noteq> FNull) = (\<not> fld_is_ok s))
         \<and> ((t \<noteq> FNull) \<noteq> (e \<noteq> FNull))"
  using assms
  by (simp add: Result_value_def Result_error_def Result_is_ok_def Result_is_err_def
      load_Result_live member_of_def)

theorem value_xor_error_witness:
  "results main_results 0 =
     Some \<lparr>fld_is_ok = True, fld_union = Ok_member ''Operation succeeded''\<rparr>
   \<and> (\<exists>t :: unit fieldptr. Result_value (RPtr 0) main_results = Inr t \<and> t \<noteq> FNull)
   \<and> Result_error (RPtr 0) main_results = Inr (FNull :: unit fieldptr)
   \<and> results main_results 1 =
     Some \<lparr>fld_is_ok = False, fld_union = Err_member ''Operation failed''\<rparr>
   \<and> Result_value (RPtr 1) main_results = Inr (FNull :: unit fieldptr)
   \<and> (\<exists>e :: unit fieldptr. Result_error (RPtr 1) main_results = Inr e \<and> e \<noteq> FNull)"
proof -
  from value_xor_error [OF main_results_valid, where ?'x = unit and ?'y = unit]
       value_xor_error [OF main_results_invalid, where ?'x = unit and ?'y = unit]
  show ?thesis using main_results_valid main_results_invalid by auto
qed

subsection \<open>Extraction with a fallback\<close>

text \<open>
  Claim C2, as the code has it. \<^verbatim>\<open>value_or\<close> and \<^verbatim>\<open>error_or\<close> begin with
  \<^verbatim>\<open>ensure(result, NULL)\<close>: for a null Result they return null, whatever the fallback.
  At a null Result and a non-null fallback the claim's "returns the fallback" fails.
\<close>

theorem value_or_null_counterexample:
  "Result_value_or RNull (Elsewhere ''fallback'' :: string fieldptr) main_results = Inr FNull
   \<and> Result_value_or RNull (Elsewhere ''fallback'' :: string fieldptr) main_results
       \<noteq> Inr (Elsewhere ''fallback'')
   \<and> Result_error_or RNull (Elsewhere ''fallback'' :: string fieldptr) main_results = Inr FNull
   \<and> Result_error_or RNull (Elsewhere ''fallback'' :: string fieldptr) main_results
       \<noteq> Inr (Elsewhere ''fallback'')"
  by (simp add: Result_value_or_def Result_error_or_def)

text \<open>
  Claim C2, amended. For every fallback \<open>f\<close>, in every store: \<open>value_or(r, f)\<close> returns
  absent (null) when \<open>r\<close> is null; and for every Result \<open>r\<close> (a pointer to a live
  record) it returns the success value (the address of the record's \<open>_ok\<close> member, which
  reads the stored value) when \<open>r\<close> is in success state and the fallback \<open>f\<close> when \<open>r\<close>
  is in error state. Symmetrically \<open>error_or(r, g)\<close> returns absent when \<open>r\<close> is null,
  the error value in error state and the fallback \<open>g\<close> in success state.
\<close>

theorem value_or_error_or:
  "Result_value_or RNull (f :: 'x fieldptr) h = Inr FNull
   \<and> Result_error_or RNull (g :: 'y fieldptr) h = Inr FNull
   \<and> (results h p = Some s \<longrightarrow>
         Result_value_or (RPtr p) f h = Inr (if fld_is_ok s then Field p else f)
       \<and> Result_error_or (RPtr p) g h = Inr (if fld_is_ok s then g else Field p)
       \<and> (fld_union s = Ok_member v \<longrightarrow> deref_ok (Field p :: 'x fieldptr) h = Some v)
       \<and> (fld_union s = Err_member e \<longrightarrow> deref_err (Field p :: 'y fieldptr) h = Some e))"
  by (simp add: Result_value_or_def Result_error_or_def load_Result_live member_of_def
      deref_ok_def deref_err_def)

theorem value_or_error_or_witness:
  "Result_value_or RNull (Elsewhere ''f'' :: string fieldptr) main_results = Inr FNull
   \<and> Result_error_or RNull (Elsewhere ''g'' :: string fieldptr) main_results = Inr FNull
   \<and> results main_results 0 =
       Some \<lparr>fld_is_ok = True, fld_union = Ok_member ''Operation succeeded''\<rparr>
   \<and> results main_results 1 =
       Some \<lparr>fld_is_ok = False, fld_union = Err_member ''Operation failed''\<rparr>
   \<and> Result_value_or (RPtr 0) (Elsewhere ''f'' :: string fieldptr) main_results = Inr (Field 0)
   \<and> deref_ok (Field 0 :: string fieldptr) main_results = Some ''Operation succeeded''
   \<and> Result_error_or (RPtr 0) (Elsewhere ''g'' :: string fieldptr) main_results
       = Inr (Elsewhere ''g'')
   \<and> Result_value_or (RPtr 1) (Elsewhere ''f'' :: string fieldptr) main_results
       = Inr (Elsewhere ''f'')
   \<and> Result_error_or (RPtr 1) (Elsewhere ''g'' :: string fieldptr) main_results = Inr (Field 1)
   \<and> deref_err (Field 1 :: string fieldptr) main_results = Some ''Operation failed''"
proof -
  from value_or_error_or [of "Elsewhere ''f''" main_results "Elsewhere ''g''" 0
         "\<lparr>fld_is_ok = True, fld_union = Ok_member ''Operation succeeded''\<rparr>"
         "''Operation succeeded''" "''Operation failed''"]
       value_or_error_or [of "Elsewhere ''f''" main_results "Elsewhere ''g''" 1
         "\<lparr>fld_is_ok = False, fld_union = Err_member ''Operation failed''\<rparr>"
         "''Operation succeeded''" "''Operation failed''"]
  show ?thesis using main_results_valid main_results_invalid by simp
qed

subsection \<open>Extraction with a supplier\<close>

lemma value_or_else_error_state:
  "results h p = Some s \<Longrightarrow> \<not> fld_is_ok s \<Longrightarrow>
   Result_value_or_else (RPtr p) or_else h = or_else h"
  by (simp add: Result_value_or_else_def load_Result_live)

lemma value_or_else_null: "Result_value_or_else RNull or_else h = Inr (FNull, h)"
  by (simp add: Result_value_or_else_def)

text \<open>
  Claim C7. For every Result \<open>r\<close> in success state and every supplier \<open>or_else\<close>:
  \<open>value_or_else(r, or_else)\<close> returns the success value (the pointer \<open>value(r)\<close>
  returns, which reads the stored value) and leaves the state as it was, whatever the
  supplier would have done to it: the supplier is not called. It is called only in error
  state, where the result is the supplier's.
\<close>

theorem value_or_else_lazy:
  assumes "results h p = Some s" and "fld_is_ok s"
  shows "Result_value_or_else (RPtr p) or_else h = Inr (Field p, h)
       \<and> Result_value (RPtr p) h = Inr (Field p :: 'x fieldptr)
       \<and> (fld_union s = Ok_member v \<longrightarrow> deref_ok (Field p :: 'x fieldptr) h = Some v)"
  using assms
  by (simp add: Result_value_or_else_def Result_value_def load_Result_live member_of_def
      deref_ok_def)

theorem value_or_else_lazy_witness:
  "Result_value_or_else (RPtr 0) (counting_supplier (Elsewhere ''fallback'')) main_results
     = Inr (Field 0, main_results)
   \<and> calls main_results = 0
   \<and> deref_ok (Field 0 :: string fieldptr) main_results = Some ''Operation succeeded''
   \<and> Result_value_or_else (RPtr 1) (counting_supplier (Elsewhere ''fallback'')) main_results
     = Inr (Elsewhere ''fallback'', main_results\<lparr>calls := 1\<rparr>)"
proof -
  have ok: "fld_is_ok \<lparr>fld_is_ok = True, fld_union = Ok_member ''Operation succeeded''\<rparr>"
    by simp
  have "calls main_results = 0"
    by (simp add: main_results_def)
  moreover have "Result_value_or_else (RPtr 1) (counting_supplier (Elsewhere ''fallback''))
      main_results = Inr (Elsewhere ''fallback'', main_results\<lparr>calls := 1\<rparr>)"
    using main_results_invalid
    by (simp add: value_or_else_error_state counting_supplier_def main_results_def)
  ultimately show ?thesis
    using value_or_else_lazy [OF main_results_valid ok,
        of "counting_supplier (Elsewhere ''fallback'')" "''Operation succeeded''",
        where ?'x = string]
    by simp
qed

subsection \<open>Release\<close>

lemma Result_delete_null: "Result_delete RNull h = Inr (Some False, h)"
  by (simp add: Result_delete_def)

lemma Result_delete_live:
  "results h p = Some s \<Longrightarrow>
   Result_delete (RPtr p) h = Inr (None, h\<lparr>results := (results h)(p := None)\<rparr>)"
  by (simp add: Result_delete_def free_Result_def)

lemma constructors_alloc_failure:
  "Result_success None v h = Inr (RNull, h) \<and> Result_fail None e h = Inr (RNull, h)"
  by (simp add: Result_success_def Result_fail_def malloc_Result_def)

text \<open>
  Claim C3, at the Result \<^verbatim>\<open>valid\<close> of \<^verbatim>\<open>result/main.c\<close>: \<^verbatim>\<open>delete\<close> frees the
  record and then reaches the end of its body: it returns no value, where the claim (and
  the function's own comment, "Returns true on success") says \<open>true\<close>.
\<close>

theorem Result_delete_returns_nothing:
  "Result_delete (RPtr 0) main_results
     = Inr (None, main_results\<lparr>results := (results main_results)(0 := None)\<rparr>)"
  by (simp add: Result_delete_def free_Result_def main_results_def)


section \<open>Properties of Array<T>\<close>

subsection \<open>Operations on a well-formed array\<close>

lemma valid_arrayE:
  assumes "valid_array h a"
  obtains p s b xs where "a = APtr p" and "arrays h p = Some s" and "fld_data s = TPtr b 0"
    and "blocks h b = Some xs" and "length xs = unat (fld_size s)"
  using assms
  by (auto simp: valid_array_def split: aptr.splits option.splits tptr.splits)

lemma Array_size_live: "arrays h p = Some s \<Longrightarrow> Array_size (APtr p) h = Inr (fld_size s)"
  by (simp add: Array_size_def load_Array_def)

lemma Array_get_live:
  assumes "arrays h p = Some s" and "fld_data s = TPtr b 0" and "blocks h b = Some xs"
    and "length xs = unat (fld_size s)"
  shows "Array_get (APtr p) i h = Inr (if i < fld_size s then TPtr b (unat i) else TNull)"
  using assms
  by (simp add: Array_get_def load_Array_def element_ptr_def word_less_nat_alt)

lemma Array_set_live:
  assumes "arrays h p = Some s" and "fld_data s = TPtr b 0" and "blocks h b = Some xs"
    and "length xs = unat (fld_size s)"
  shows "Array_set (APtr p) i v h =
           Inr (if i < fld_size s
                then (True, h\<lparr>blocks := (blocks h)(b \<mapsto> xs[unat i := v])\<rparr>)
                else (False, h))"
  using assms
  by (simp add: Array_set_def load_Array_def store_element_def word_less_nat_alt)

lemma Array_set_out_of_range:
  "arrays h p = Some s \<Longrightarrow> \<not> i < fld_size s \<Longrightarrow> Array_set (APtr p) i v h = Inr (False, h)"
  by (simp add: Array_set_def load_Array_def)

lemma Array_get_out_of_range:
  "arrays h p = Some s \<Longrightarrow> \<not> i < fld_size s \<Longrightarrow> Array_get (APtr p) i h = Inr TNull"
  by (simp add: Array_get_def load_Array_def)

text \<open>\<open>Array_set\<close> keeps an array well-formed, whether it stores or rejects.\<close>

lemma Array_set_keeps_valid:
  assumes "valid_array h a" and "Array_set a i v h = Inr (ok, h')"
  shows "valid_array h' a"
proof -
  from assms(1) obtain p s b xs where a: "a = APtr p" and s: "arrays h p = Some s"
    and d: "fld_data s = TPtr b 0" and xs: "blocks h b = Some xs"
    and len: "length xs = unat (fld_size s)"
    by (rule valid_arrayE)
  from assms(2) have "h' = h \<or> h' = h\<lparr>blocks := (blocks h)(b \<mapsto> xs[unat i := v])\<rparr>"
    unfolding a Array_set_live [OF s d xs len] by (auto split: if_splits)
  then show ?thesis
    using assms(1) s d xs len by (auto simp: a valid_array_def)
qed

lemma Array_new_allocated:
  "unat n * unat sizeof_T < 2 ^ 64 \<Longrightarrow>
   Array_new sizeof_T (Some (p, junk)) (Some b) n h =
     Inr (APtr p,
          h\<lparr>arrays := (arrays h)(p \<mapsto> \<lparr>fld_data = TPtr b 0, fld_size = n\<rparr>),
            blocks := (blocks h)(b \<mapsto> replicate (unat n) 0)\<rparr>)"
  by (cases junk) (simp add: Array_new_def malloc_Array_def calloc_T_def store_Array_def)

lemma Array_new_without_block:
  "c = None \<or> 2 ^ 64 \<le> unat n * unat sizeof_T \<Longrightarrow>
   Array_new sizeof_T (Some (p, junk)) c n h =
     Inr (APtr p, h\<lparr>arrays := (arrays h)(p \<mapsto> \<lparr>fld_data = TNull, fld_size = n\<rparr>)\<rparr>)"
  by (cases junk) (auto simp: Array_new_def malloc_Array_def calloc_T_def store_Array_def)

text \<open>The example array.\<close>

lemma three_zeros: "replicate 3 (0::int) = [0, 0, 0]"
  by (simp add: numeral_3_eq_3)

lemma three_ints_valid: "valid_array three_ints (APtr 0)"
  by (simp add: valid_array_def three_ints_def)

lemma three_ints_size: "Array_size (APtr 0) three_ints = Inr 3"
  by (simp add: Array_size_def load_Array_def three_ints_def)

subsection \<open>Creation\<close>

text \<open>
  When both allocations succeed (the byte count fits \<^verbatim>\<open>size_t\<close> and the allocator
  answers both requests), \<open>Array_new\<close> yields a well-formed Array of the size asked for,
  every slot of which reads the element type's zero.
\<close>

lemma Array_new_zeroed:
  assumes "unat n * unat sizeof_T < 2 ^ 64"
  shows "\<exists>h'. Array_new sizeof_T (Some (p, junk)) (Some b) n h = Inr (APtr p, h')
       \<and> valid_array h' (APtr p)
       \<and> Array_size (APtr p) h' = Inr n
       \<and> (\<forall>i. i < n \<longrightarrow> (\<exists>t. Array_get (APtr p) i h' = Inr t \<and> deref_T t h' = Some 0))"
proof -
  let ?h' = "h\<lparr>arrays := (arrays h)(p \<mapsto> \<lparr>fld_data = TPtr b 0, fld_size = n\<rparr>),
               blocks := (blocks h)(b \<mapsto> replicate (unat n) 0)\<rparr>"
  have s: "arrays ?h' p = Some \<lparr>fld_data = TPtr b 0, fld_size = n\<rparr>"
    by simp
  have xs: "blocks ?h' b = Some (replicate (unat n) 0)"
    by simp
  have get: "Array_get (APtr p) i ?h' = Inr (if i < n then TPtr b (unat i) else TNull)" for i
    using Array_get_live [where h = ?h' and p = p and b = b and i = i, OF s _ xs] by simp
  have "deref_T (TPtr b (unat i)) ?h' = Some 0" if "i < n" for i
    using that by (simp add: deref_T_def word_less_nat_alt)
  with get have "\<forall>i. i < n \<longrightarrow> (\<exists>t. Array_get (APtr p) i ?h' = Inr t \<and> deref_T t ?h' = Some 0)"
    by simp
  moreover have "valid_array ?h' (APtr p)"
    by (simp add: valid_array_def)
  moreover have "Array_size (APtr p) ?h' = Inr n"
    using Array_size_live [OF s] by simp
  ultimately show ?thesis
    unfolding Array_new_allocated [OF assms] by blast
qed

lemma new_three_ints:
  "Array_new 4 (Some (0, junk)) (Some 0) 3 no_arrays = Inr (APtr 0, three_ints)"
proof -
  have "Array_new 4 (Some (0, junk)) (Some 0) 3 no_arrays =
      Inr (APtr 0,
           no_arrays\<lparr>arrays := (arrays no_arrays)(0 \<mapsto> \<lparr>fld_data = TPtr 0 0, fld_size = 3\<rparr>),
             blocks := (blocks no_arrays)(0 \<mapsto> replicate (unat (3::size_t)) 0)\<rparr>)"
    by (rule Array_new_allocated) simp
  then show ?thesis
    by (simp add: no_arrays_def three_ints_def three_zeros)
qed

text \<open>
  Claim C8, at \<open>new(SIZE_MAX)\<close> for \<^verbatim>\<open>Array<int>\<close> (size \<open>- 1\<close>, the largest
  \<^verbatim>\<open>size_t\<close>; \<^verbatim>\<open>sizeof(int)\<close> is 4), with \<^verbatim>\<open>malloc\<close> succeeding at address 0. The
  byte count does not fit \<^verbatim>\<open>size_t\<close>, so \<^verbatim>\<open>calloc\<close> fails whatever the allocator would
  answer, and \<open>Array_new\<close>, which does not test it, returns a non-null Array whose
  \<open>size\<close> is \<open>n\<close> and whose \<open>data\<close> is null: it has no slot, slot 0 does not read zero
  (\<open>get(a, 0)\<close> forms an address from the null \<open>data\<close>), and the Array is not
  well-formed, where the claim says every slot below \<open>n\<close> holds zero.
\<close>

theorem new_size_max_has_no_slots:
  "\<exists>h'. Array_new 4 (Some (0, junk)) c (- 1) no_arrays = Inr (APtr 0, h')
       \<and> Array_size (APtr 0) h' = Inr (- 1)
       \<and> (0::size_t) < - 1
       \<and> load_Array (APtr 0) h' = Inr \<lparr>fld_data = TNull, fld_size = - 1\<rparr>
       \<and> blocks h' = Map.empty
       \<and> Array_get (APtr 0) 0 h' = Inl NullDeref
       \<and> \<not> valid_array h' (APtr 0)"
proof -
  have "(2::nat) ^ 64 \<le> unat (- 1 :: size_t) * unat (4::size_t)"
    by (simp add: unsigned_minus_1_eq_mask mask_eq_exp_minus_1)
  then have "Array_new 4 (Some (0, junk)) c (- 1) no_arrays =
      Inr (APtr 0, no_arrays\<lparr>arrays := (arrays no_arrays)
             (0 \<mapsto> \<lparr>fld_data = TNull, fld_size = - 1\<rparr>)\<rparr>)"
    by (simp add: Array_new_without_block)
  moreover have "(0::size_t) < - 1"
    by (simp add: word_less_nat_alt unsigned_minus_1_eq_mask mask_eq_exp_minus_1)
  ultimately show ?thesis
    by (simp add: Array_size_def load_Array_def Array_get_def element_ptr_def
        valid_array_def no_arrays_def unsigned_minus_1_eq_mask mask_eq_exp_minus_1)
qed

subsection \<open>Bounds-checked access\<close>

text \<open>
  Claim C9. For every Array \<open>a\<close> of size \<open>n\<close> and every value \<open>v\<close>: if \<open>i < n\<close> then
  \<open>set(a, i, v)\<close> succeeds (returns \<open>true\<close>) and a following \<open>get(a, i)\<close> returns a
  pointer that reads \<open>v\<close>; if \<open>j \<ge> n\<close> then \<open>get(a, j)\<close> returns absent (null) and
  \<open>set(a, j, v)\<close> returns \<open>false\<close> and leaves the store as it was.
\<close>

theorem set_get_bounds:
  assumes "valid_array h a" and "Array_size a h = Inr n"
  shows "(i < n \<longrightarrow>
            (\<exists>h' t. Array_set a i v h = Inr (True, h') \<and> Array_get a i h' = Inr t
                   \<and> deref_T t h' = Some v))
       \<and> (\<not> j < n \<longrightarrow> Array_get a j h = Inr TNull \<and> Array_set a j v h = Inr (False, h))"
proof -
  from assms(1) obtain p s b xs where a: "a = APtr p" and s: "arrays h p = Some s"
    and d: "fld_data s = TPtr b 0" and xs: "blocks h b = Some xs"
    and len: "length xs = unat (fld_size s)"
    by (rule valid_arrayE)
  from assms(2) have n: "fld_size s = n"
    by (simp add: a Array_size_live [OF s])
  let ?h' = "h\<lparr>blocks := (blocks h)(b \<mapsto> xs[unat i := v])\<rparr>"
  have inside: "\<exists>h' t. Array_set a i v h = Inr (True, h') \<and> Array_get a i h' = Inr t
      \<and> deref_T t h' = Some v" if "i < n"
  proof -
    have set: "Array_set a i v h = Inr (True, ?h')"
      using that by (simp add: a n Array_set_live [OF s d xs len])
    have s': "arrays ?h' p = Some s" and xs': "blocks ?h' b = Some (xs[unat i := v])"
      using s by simp_all
    have get: "Array_get a i ?h' = Inr (TPtr b (unat i))"
      using that Array_get_live [OF s' d xs', of i] by (simp add: a n len)
    have "deref_T (TPtr b (unat i)) ?h' = Some v"
      using that by (simp add: deref_T_def len n word_less_nat_alt)
    with set get show ?thesis by blast
  qed
  have outside: "Array_get a j h = Inr TNull \<and> Array_set a j v h = Inr (False, h)"
    if "\<not> j < n"
    using that by (simp add: a n Array_get_out_of_range [OF s] Array_set_out_of_range [OF s])
  from inside outside show ?thesis by blast
qed

theorem set_get_bounds_witness:
  "valid_array three_ints (APtr 0) \<and> Array_size (APtr 0) three_ints = Inr 3
   \<and> (1::size_t) < 3 \<and> \<not> (5::size_t) < 3
   \<and> (\<exists>h' t. Array_set (APtr 0) 1 42 three_ints = Inr (True, h')
         \<and> Array_get (APtr 0) 1 h' = Inr t \<and> deref_T t h' = Some 42)
   \<and> Array_get (APtr 0) 5 three_ints = Inr TNull
   \<and> Array_set (APtr 0) 5 42 three_ints = Inr (False, three_ints)"
proof -
  have lt: "(1::size_t) < 3" and ge: "\<not> (5::size_t) < 3"
    by simp_all
  from set_get_bounds [OF three_ints_valid three_ints_size, of 1 42 5]
  show ?thesis using three_ints_valid three_ints_size lt ge by blast
qed

text \<open>
  Claim C10. For every Array \<open>a\<close> of size \<open>n\<close>, every index \<open>i < n\<close> and every value
  \<open>v\<close>: \<open>set(a, i, v)\<close> leaves \<open>size(a)\<close> as it was, and for every other index \<open>j < n\<close>,
  \<open>j \<noteq> i\<close>, \<open>get(a, j)\<close> returns the same pointer before and after the call, reading
  the same value.
\<close>

theorem set_frame:
  assumes "valid_array h a" and "Array_size a h = Inr n" and "i < n"
  shows "\<exists>h'. Array_set a i v h = Inr (True, h')
       \<and> Array_size a h' = Inr n
       \<and> (\<forall>j. j < n \<and> j \<noteq> i \<longrightarrow>
            (\<exists>t x. Array_get a j h = Inr t \<and> Array_get a j h' = Inr t
                  \<and> deref_T t h = Some x \<and> deref_T t h' = Some x))"
proof -
  from assms(1) obtain p s b xs where a: "a = APtr p" and s: "arrays h p = Some s"
    and d: "fld_data s = TPtr b 0" and xs: "blocks h b = Some xs"
    and len: "length xs = unat (fld_size s)"
    by (rule valid_arrayE)
  from assms(2) have n: "fld_size s = n"
    by (simp add: a Array_size_live [OF s])
  let ?h' = "h\<lparr>blocks := (blocks h)(b \<mapsto> xs[unat i := v])\<rparr>"
  have set: "Array_set a i v h = Inr (True, ?h')"
    using assms(3) by (simp add: a n Array_set_live [OF s d xs len])
  have s': "arrays ?h' p = Some s" and xs': "blocks ?h' b = Some (xs[unat i := v])"
    using s by simp_all
  have size: "Array_size a ?h' = Inr n"
    using Array_size_live [OF s'] by (simp add: a n)
  have other: "\<exists>t x. Array_get a j h = Inr t \<and> Array_get a j ?h' = Inr t
      \<and> deref_T t h = Some x \<and> deref_T t ?h' = Some x" if "j < n" and "j \<noteq> i" for j
  proof -
    have before: "Array_get a j h = Inr (TPtr b (unat j))"
      using that(1) by (simp add: a n Array_get_live [OF s d xs len])
    have after: "Array_get a j ?h' = Inr (TPtr b (unat j))"
      using that(1) Array_get_live [OF s' d xs', of j] by (simp add: a n len)
    have inside: "unat j < length xs"
      using that(1) by (simp add: len n word_less_nat_alt)
    have apart: "unat i \<noteq> unat j"
      using that(2) by (simp add: word_unat_eq_iff)
    have "deref_T (TPtr b (unat j)) h = Some (xs ! unat j)"
      using inside xs by (simp add: deref_T_def)
    moreover have "deref_T (TPtr b (unat j)) ?h' = Some (xs ! unat j)"
      using inside apart by (simp add: deref_T_def)
    ultimately show ?thesis
      using before after by blast
  qed
  from set size other show ?thesis by blast
qed

theorem set_frame_witness:
  "valid_array three_ints (APtr 0) \<and> Array_size (APtr 0) three_ints = Inr 3
   \<and> (1::size_t) < 3 \<and> (2::size_t) < 3 \<and> (2::size_t) \<noteq> 1
   \<and> (\<exists>h'. Array_set (APtr 0) 1 42 three_ints = Inr (True, h')
         \<and> Array_size (APtr 0) h' = Inr 3
         \<and> (\<exists>t x. Array_get (APtr 0) 2 three_ints = Inr t \<and> Array_get (APtr 0) 2 h' = Inr t
                \<and> deref_T t three_ints = Some x \<and> deref_T t h' = Some x))"
proof -
  have lt: "(1::size_t) < 3" and other: "(2::size_t) < 3 \<and> (2::size_t) \<noteq> 1"
    by simp_all
  from set_frame [OF three_ints_valid three_ints_size lt, of 42]
  show ?thesis using three_ints_valid three_ints_size lt other by blast
qed

subsection \<open>Replace\<close>

text \<open>
  \<open>Array_replace\<close> returns the pointer \<open>Array_get\<close> gave it before the store. That
  pointer is the slot's address: it reads the old value before the call and the new value
  after it.
\<close>

lemma replace_aliases_slot:
  assumes "valid_array h a" and "Array_size a h = Inr n" and "i < n"
  shows "\<exists>h1 h2 t. Array_set a i v1 h = Inr (True, h1)
       \<and> Array_replace a i v2 h1 = Inr (t, h2)
       \<and> Array_get a i h1 = Inr t \<and> Array_get a i h2 = Inr t
       \<and> deref_T t h1 = Some v1 \<and> deref_T t h2 = Some v2"
proof -
  from assms(1) obtain p s b xs where a: "a = APtr p" and s: "arrays h p = Some s"
    and d: "fld_data s = TPtr b 0" and xs: "blocks h b = Some xs"
    and len: "length xs = unat (fld_size s)"
    by (rule valid_arrayE)
  from assms(2) have n: "fld_size s = n"
    by (simp add: a Array_size_live [OF s])
  have inside: "unat i < length xs"
    using assms(3) by (simp add: len n word_less_nat_alt)
  let ?h1 = "h\<lparr>blocks := (blocks h)(b \<mapsto> xs[unat i := v1])\<rparr>"
  let ?h2 = "h\<lparr>blocks := (blocks h)(b \<mapsto> xs[unat i := v2])\<rparr>"
  have set1: "Array_set a i v1 h = Inr (True, ?h1)"
    using assms(3) by (simp add: a n Array_set_live [OF s d xs len])
  have s1: "arrays ?h1 p = Some s" and xs1: "blocks ?h1 b = Some (xs[unat i := v1])"
    using s by simp_all
  have len1: "length (xs[unat i := v1]) = unat (fld_size s)"
    by (simp add: len)
  have get1: "Array_get a i ?h1 = Inr (TPtr b (unat i))"
    using assms(3) by (simp add: a n Array_get_live [OF s1 d xs1 len1])
  have set2: "Array_set a i v2 ?h1 = Inr (True, ?h2)"
    using assms(3) by (simp add: a n Array_set_live [OF s1 d xs1 len1])
  have replace: "Array_replace a i v2 ?h1 = Inr (TPtr b (unat i), ?h2)"
    using assms(3) get1 set2 s1 by (simp add: Array_replace_def a n load_Array_def)
  have s2: "arrays ?h2 p = Some s" and xs2: "blocks ?h2 b = Some (xs[unat i := v2])"
    using s by simp_all
  have get2: "Array_get a i ?h2 = Inr (TPtr b (unat i))"
    using assms(3) Array_get_live [OF s2 d xs2, of i] by (simp add: a n len)
  have "deref_T (TPtr b (unat i)) ?h1 = Some v1" and "deref_T (TPtr b (unat i)) ?h2 = Some v2"
    using inside by (simp_all add: deref_T_def)
  with set1 replace get1 get2 show ?thesis by blast
qed

text \<open>
  Claim C1, at the example array, index 1, \<open>v1 = 10\<close> and \<open>v2 = 20\<close>: after
  \<open>set(a, 1, 10)\<close>, \<open>replace(a, 1, 20)\<close> leaves slot 1 holding 20, and the pointer it
  returns reads 20, the new value, where the claim (and the function's own comment,
  "returns a pointer to the old value") says the previous value 10. Before the call the
  same pointer read 10.
\<close>

theorem replace_returns_new_value:
  "\<exists>h1 h2 t. Array_set (APtr 0) 1 10 three_ints = Inr (True, h1)
     \<and> Array_replace (APtr 0) 1 20 h1 = Inr (t, h2)
     \<and> Array_get (APtr 0) 1 h2 = Inr t
     \<and> deref_T t h1 = Some 10
     \<and> deref_T t h2 = Some 20"
proof -
  have "(1::size_t) < 3"
    by simp
  from replace_aliases_slot [OF three_ints_valid three_ints_size this, of 10 20]
  show ?thesis by blast
qed

subsection \<open>Release\<close>

lemma Array_delete_null: "Array_delete ANull h = Inr (False, h)"
  by (simp add: Array_delete_def)

lemma Array_delete_valid:
  assumes "valid_array h (APtr p)"
  shows "\<exists>s b h'. arrays h p = Some s \<and> fld_data s = TPtr b 0
       \<and> Array_delete (APtr p) h = Inr (True, h')
       \<and> arrays h' = (arrays h)(p := None) \<and> blocks h' = (blocks h)(b := None)"
proof -
  from assms obtain s b xs where s: "arrays h p = Some s"
    and d: "fld_data s = TPtr b 0" and xs: "blocks h b = Some xs"
    by (auto elim: valid_arrayE)
  then show ?thesis
    by (simp add: Array_delete_def load_Array_def free_T_def free_Array_def)
qed

subsection \<open>Allocation failure\<close>

text \<open>
  Claim C4, at \<open>new(n)\<close>. When \<^verbatim>\<open>malloc\<close> fails, \<open>Array_new\<close> stores through the null
  pointer it got (\<^verbatim>\<open>array->data = ...\<close>) where the claim says it returns null without
  dereferencing; the constructors of Result test the pointer first. When \<^verbatim>\<open>malloc\<close>
  succeeds and \<^verbatim>\<open>calloc\<close> fails, \<open>Array_new\<close> returns a non-null container of size
  \<open>n\<close> whose \<open>data\<close> is null, and a \<open>set\<close> at an index within that size stores through
  the null \<open>data\<close>.
\<close>

theorem Array_new_unchecked_allocation:
  "Array_new sizeof_T None c n h = Inl NullDeref
   \<and> (\<exists>h'. Array_new sizeof_T (Some (p, junk)) None n h = Inr (APtr p, h')
          \<and> load_Array (APtr p) h' = Inr \<lparr>fld_data = TNull, fld_size = n\<rparr>
          \<and> Array_set (APtr p) 0 v h' = (if 0 < n then Inl NullDeref else Inr (False, h')))"
proof -
  have "Array_new sizeof_T None c n h = Inl NullDeref"
    by (cases c) (simp_all add: Array_new_def malloc_Array_def calloc_T_def store_Array_def)
  moreover have "Array_new sizeof_T (Some (p, junk)) None n h =
      Inr (APtr p, h\<lparr>arrays := (arrays h)(p \<mapsto> \<lparr>fld_data = TNull, fld_size = n\<rparr>)\<rparr>)"
    by (simp add: Array_new_without_block)
  ultimately show ?thesis
    by (simp add: load_Array_def Array_set_def store_element_def)
qed

end
